theory Spec2Isabelle
  imports Main "HOL-Library.Monad_Syntax"
begin

section \<open>The parts of Go's \<open>time\<close> package that the program calls\<close>

text \<open>
  A Go string is a sequence of bytes, so it is a \<^typ>\<open>string\<close> here and a character beyond
  ASCII is the bytes of its UTF-8 encoding.

  A \<open>time.Time\<close> is an instant (seconds since the Unix epoch and nanoseconds within
  the second) together with a location. The only locations the program meets are UTC,
  the fixed zones that \<open>time.Parse\<close> builds from a numeric offset, and Asia/Tokyo, which
  has been nine hours east of UTC without interruption since 1951; a location is
  therefore its offset in seconds east of UTC. Go's \<open>int\<close> and \<open>int64\<close> are \<^typ>\<open>int\<close>:
  years have four digits where they are parsed and nothing here comes near \<open>2 ^ 63\<close>.
\<close>

record Time =
  unixSec :: int
  nsec :: int
  loc :: int

definition time_UTC :: int where
  "time_UTC = 0"

definition time_FixedZone :: "string \<Rightarrow> int \<Rightarrow> int" where
  "time_FixedZone name offset = offset"

definition time_Hour :: int where
  "time_Hour = 60 * (60 * 1000000000)"

definition After :: "Time \<Rightarrow> Time \<Rightarrow> bool" where
  "After t u = (unixSec t > unixSec u \<or> unixSec t = unixSec u \<and> nsec t > nsec u)"

definition Before :: "Time \<Rightarrow> Time \<Rightarrow> bool" where
  "Before t u = (unixSec t < unixSec u \<or> unixSec t = unixSec u \<and> nsec t < nsec u)"

definition In :: "Time \<Rightarrow> int \<Rightarrow> Time" where
  "In t l = t\<lparr>loc := l\<rparr>"

text \<open>
  \<open>Add\<close> takes a duration in nanoseconds and carries between the two fields, so that
  the nanoseconds stay in \<open>0 ..< 10 ^ 9\<close>.
\<close>

definition Add :: "Time \<Rightarrow> int \<Rightarrow> Time" where
  "Add t d =
     t\<lparr>unixSec := unixSec t + (nsec t + d) div 1000000000,
       nsec := (nsec t + d) mod 1000000000\<rparr>"

subsection \<open>The calendar\<close>

definition isLeap :: "int \<Rightarrow> bool" where
  "isLeap year = (year mod 4 = 0 \<and> (year mod 100 \<noteq> 0 \<or> year mod 400 = 0))"

definition daysBefore :: "int list" where
  "daysBefore = [0, 31, 59, 90, 120, 151, 181, 212, 243, 273, 304, 334, 365]"

definition daysIn :: "int \<Rightarrow> int \<Rightarrow> int" where
  "daysIn m year =
     (if m = 2 \<and> isLeap year then 29
      else daysBefore ! nat m - daysBefore ! nat (m - 1))"

text \<open>
  Go counts days from 1 January of a year far in the past that is congruent to 1
  modulo 400, to keep the count unsigned. The model counts from 1 January of year 1,
  which is in the same place of the 400-year cycle; \<open>div\<close> rounds down, as the unsigned
  division of the shifted count does.
\<close>

definition daysSinceEpoch :: "int \<Rightarrow> int" where
  "daysSinceEpoch year =
     (let y = year - 1;
          n400 = y div 400; y1 = y - 400 * n400;
          n100 = y1 div 100; y2 = y1 - 100 * n100;
          n4 = y2 div 4; y3 = y2 - 4 * n4
      in 146097 * n400 + 36524 * n100 + 1461 * n4 + 365 * y3)"

definition unixToInternal :: int where
  "unixToInternal = (1969 * 365 + 1969 div 4 - 1969 div 100 + 1969 div 400) * 86400"

definition norm :: "int \<Rightarrow> int \<Rightarrow> int \<Rightarrow> int \<times> int" where
  "norm hi lo base = (hi + lo div base, lo mod base)"

definition time_Date :: "int \<Rightarrow> int \<Rightarrow> int \<Rightarrow> int \<Rightarrow> int \<Rightarrow> int \<Rightarrow> int \<Rightarrow> int \<Rightarrow> Time" where
  "time_Date year month day hour minute sec ns l =
     (let (year, m) = norm year (month - 1) 12;
          month = m + 1;
          (sec, ns) = norm sec ns 1000000000;
          (minute, sec) = norm minute sec 60;
          (hour, minute) = norm hour minute 60;
          (day, hour) = norm day hour 24;
          d = daysSinceEpoch year + daysBefore ! nat (month - 1)
              + (if isLeap year \<and> month \<ge> 3 then 1 else 0) + (day - 1);
          secs = d * 86400 + hour * 3600 + minute * 60 + sec
      in \<lparr>unixSec = secs - unixToInternal - l, nsec = ns, loc = l\<rparr>)"

text \<open>Seconds since 1 January of year 1, 00:00:00, on the clock of the time's location.\<close>

definition abs_sec :: "Time \<Rightarrow> int" where
  "abs_sec t = unixSec t + loc t + unixToInternal"

text \<open>From a count of days to the year and the day within the year, counting from 0.\<close>

definition year_yday :: "int \<Rightarrow> int \<times> int" where
  "year_yday d =
     (let n400 = d div 146097; d1 = d - 146097 * n400;
          n100 = d1 div 36524; n100' = n100 - n100 div 4; d2 = d1 - 36524 * n100';
          n4 = d2 div 1461; d3 = d2 - 1461 * n4;
          n1 = d3 div 365; n1' = n1 - n1 div 4; yday = d3 - 365 * n1'
      in (400 * n400 + 100 * n100' + 4 * n4 + n1' + 1, yday))"

text \<open>
  From the day within the year to the month and the day of the month: the month is
  estimated as if every month had 31 days and corrected with the table.
\<close>

definition month_day :: "bool \<Rightarrow> int \<Rightarrow> int \<times> int" where
  "month_day leap yday =
     (if leap \<and> yday = 31 + 29 - 1 then (2, 29)
      else
        let day = (if leap \<and> yday > 31 + 29 - 1 then yday - 1 else yday);
            month = day div 31;
            end = daysBefore ! nat (month + 1)
        in if day \<ge> end then (month + 2, day - end + 1)
           else (month + 1, day - daysBefore ! nat month + 1))"

definition absDate :: "int \<Rightarrow> int \<times> int \<times> int" where
  "absDate secs =
     (let (year, yday) = year_yday (secs div 86400);
          (month, day) = month_day (isLeap year) yday
      in (year, month, day))"

definition Year :: "Time \<Rightarrow> int" where
  "Year t = fst (absDate (abs_sec t))"

definition Month :: "Time \<Rightarrow> int" where
  "Month t = fst (snd (absDate (abs_sec t)))"

definition Day :: "Time \<Rightarrow> int" where
  "Day t = snd (snd (absDate (abs_sec t)))"

definition Hour :: "Time \<Rightarrow> int" where
  "Hour t = (abs_sec t mod 86400) div 3600"

definition Minute :: "Time \<Rightarrow> int" where
  "Minute t = (abs_sec t mod 3600) div 60"

definition Second :: "Time \<Rightarrow> int" where
  "Second t = abs_sec t mod 60"

subsection \<open>Formatting\<close>

text \<open>A digit as a byte: \<open>'0' + byte(u)\<close>.\<close>

definition utod :: "nat \<Rightarrow> char" where
  "utod u = char_of (48 + u)"

fun digits :: "nat \<Rightarrow> string" where
  "digits n = (if n < 10 then [utod n] else digits (n div 10) @ [utod (n mod 10)])"

declare digits.simps [simp del]

text \<open>\<open>appendInt\<close> writes a sign for a negative number and pads with zeros to the width.\<close>

definition appendInt :: "int \<Rightarrow> nat \<Rightarrow> string" where
  "appendInt x width =
     (let u = nat \<bar>x\<bar>; ds = digits u
      in (if x < 0 then ''-'' else '''') @ replicate (width - length ds) CHR ''0'' @ ds)"

text \<open>
  \<open>Format\<close> with the layouts \<open>2006-01-02\<close>, \<open>2006-01-02 15:04\<close> and
  \<open>2006-01-02 15:04:05\<close>.
\<close>

definition Format_date :: "Time \<Rightarrow> string" where
  "Format_date t =
     appendInt (Year t) 4 @ ''-'' @ appendInt (Month t) 2 @ ''-'' @ appendInt (Day t) 2"

definition Format_minute :: "Time \<Rightarrow> string" where
  "Format_minute t =
     Format_date t @ '' '' @ appendInt (Hour t) 2 @ '':'' @ appendInt (Minute t) 2"

definition Format_second :: "Time \<Rightarrow> string" where
  "Format_second t = Format_minute t @ '':'' @ appendInt (Second t) 2"

subsection \<open>Parsing\<close>

text \<open>
  An error is a parse error of \<open>time.Parse\<close> (layout and value), an error of another
  library (its text), or one that the program builds with \<open>fmt.Errorf\<close>: the format
  and the operands, unrendered.
\<close>

datatype arg = S string | E error
  and error = ParseError string string | External string | Errorf string "arg list"

definition isDigit :: "char \<Rightarrow> bool" where
  "isDigit c = (48 \<le> (of_char c :: nat) \<and> (of_char c :: nat) \<le> 57)"

definition digitVal :: "char \<Rightarrow> int" where
  "digitVal c = int (of_char c) - 48"

definition getnum :: "string \<Rightarrow> bool \<Rightarrow> (int \<times> string) option" where
  "getnum s fixed =
     (case s of
        [] \<Rightarrow> None
      | c0 # r0 \<Rightarrow>
          if \<not> isDigit c0 then None
          else (case r0 of
                  [] \<Rightarrow> if fixed then None else Some (digitVal c0, r0)
                | c1 # r1 \<Rightarrow>
                    if \<not> isDigit c1 then (if fixed then None else Some (digitVal c0, r0))
                    else Some (digitVal c0 * 10 + digitVal c1, r1)))"

definition atoi :: "string \<Rightarrow> int option" where
  "atoi s =
     (if s \<noteq> [] \<and> list_all isDigit s
      then Some (foldl (\<lambda>a c. a * 10 + digitVal c) 0 s) else None)"

definition skip :: "string \<Rightarrow> char \<Rightarrow> string option" where
  "skip v c = (case v of [] \<Rightarrow> None | x # xs \<Rightarrow> if x = c then Some xs else None)"

definition guard :: "bool \<Rightarrow> unit option" where
  "guard b = (if b then Some () else None)"

definition getLongYear :: "string \<Rightarrow> (int \<times> string) option" where
  "getLongYear v =
     (if length v < 4 \<or> \<not> isDigit (hd v) then None
      else map_option (\<lambda>y. (y, drop 4 v)) (atoi (take 4 v)))"

text \<open>
  After the seconds, a period or comma followed by a digit starts a fraction that is
  read although the layout has none: all its digits are consumed and the first nine
  count.
\<close>

definition getFraction :: "string \<Rightarrow> (int \<times> string) option" where
  "getFraction v =
     (case v of
        c # d # r \<Rightarrow>
          if (c = CHR ''.'' \<or> c = CHR '','') \<and> isDigit d then
            (let ds = takeWhile isDigit (d # r);
                 used = take 9 ds
             in map_option (\<lambda>n. (n * 10 ^ (9 - length used), dropWhile isDigit (d # r)))
                  (atoi used))
          else Some (0, v)
      | _ \<Rightarrow> Some (0, v))"

text \<open>The layout element \<open>Z07:00\<close>: the letter Z, or a sign, two digits, a colon, two digits.\<close>

definition getZone :: "string \<Rightarrow> (int \<times> string) option" where
  "getZone v =
     (case v of
        [] \<Rightarrow> None
      | c # r \<Rightarrow>
          if c = CHR ''Z'' then Some (0, r)
          else if length v < 6 \<or> v ! 3 \<noteq> CHR '':'' then None
          else do {
            (hr, _) \<leftarrow> getnum (take 2 r) True;
            (mm, _) \<leftarrow> getnum (take 2 (drop 4 v)) True;
            guard (hr \<le> 24 \<and> mm \<le> 60);
            sign \<leftarrow> (if c = CHR ''+'' then Some 1 else if c = CHR ''-'' then Some (- 1) else None);
            Some (sign * ((hr * 60 + mm) * 60), drop 6 v)
          })"

text \<open>\<open>time.Parse\<close> with the layout \<open>time.RFC3339\<close>, that is \<open>2006-01-02T15:04:05Z07:00\<close>.\<close>

definition parse_RFC3339 :: "string \<Rightarrow> Time option" where
  "parse_RFC3339 value = do {
     (year, v1) \<leftarrow> getLongYear value;
     v2 \<leftarrow> skip v1 CHR ''-'';
     (month, v3) \<leftarrow> getnum v2 True;
     guard (0 < month \<and> month \<le> 12);
     v4 \<leftarrow> skip v3 CHR ''-'';
     (day, v5) \<leftarrow> getnum v4 True;
     v6 \<leftarrow> skip v5 CHR ''T'';
     (hour, v7) \<leftarrow> getnum v6 False;
     guard (hour < 24);
     v8 \<leftarrow> skip v7 CHR '':'';
     (minute, v9) \<leftarrow> getnum v8 True;
     guard (minute < 60);
     v10 \<leftarrow> skip v9 CHR '':'';
     (sec, v11) \<leftarrow> getnum v10 True;
     guard (sec < 60);
     (ns, v12) \<leftarrow> getFraction v11;
     (zoneOffset, v13) \<leftarrow> getZone v12;
     guard (v13 = []);
     guard (1 \<le> day \<and> day \<le> daysIn month year);
     Some (In (Add (time_Date year month day hour minute sec ns time_UTC) (- zoneOffset * 1000000000))
             (time_FixedZone [] zoneOffset))
   }"

text \<open>\<open>time.Parse\<close> with the layout \<open>2006-01-02\<close>: the result is midnight UTC of the date.\<close>

definition parse_date :: "string \<Rightarrow> Time option" where
  "parse_date value = do {
     (year, v1) \<leftarrow> getLongYear value;
     v2 \<leftarrow> skip v1 CHR ''-'';
     (month, v3) \<leftarrow> getnum v2 True;
     guard (0 < month \<and> month \<le> 12);
     v4 \<leftarrow> skip v3 CHR ''-'';
     (day, v5) \<leftarrow> getnum v4 True;
     guard (v5 = []);
     guard (1 \<le> day \<and> day \<le> daysIn month year);
     Some (time_Date year month day 0 0 0 0 time_UTC)
   }"

text \<open>The two layouts that the program parses with.\<close>

datatype layout = RFC3339 | Layout_2006_01_02

definition layout_text :: "layout \<Rightarrow> string" where
  "layout_text l =
     (case l of RFC3339 \<Rightarrow> ''2006-01-02T15:04:05Z07:00'' | Layout_2006_01_02 \<Rightarrow> ''2006-01-02'')"

definition time_Parse :: "layout \<Rightarrow> string \<Rightarrow> error + Time" where
  "time_Parse l value =
     (case (case l of RFC3339 \<Rightarrow> parse_RFC3339 value | Layout_2006_01_02 \<Rightarrow> parse_date value) of
        None \<Rightarrow> Inl (ParseError (layout_text l) value)
      | Some t \<Rightarrow> Inr t)"

section \<open>The program\<close>

subsection \<open>Data\<close>

text \<open>
  \<open>calendar.Event\<close> and \<open>calendar.EventDateTime\<close>, with the fields that the program
  reads. \<open>Start\<close> and \<open>End\<close> are pointers: \<open>None\<close> is nil, and reading a field through
  it panics.
\<close>

record EventDateTime =
  DateTime :: string
  Date :: string

record Event =
  Id_ev :: string
  Summary :: string
  Description :: string
  Location :: string
  Start :: "EventDateTime option"
  End :: "EventDateTime option"

datatype Service = Service string

text \<open>
  What the program does to the outside: a line on the log, written as the call that
  makes it (format and operands, or the operands of \<open>Println\<close>); the list request to the
  calendar; a POST with its URL, content type and the map that is sent as JSON.
\<close>

datatype log_line = Printf string "arg list" | Println "arg list"

datatype effect =
  Log log_line
  | EventsList string
  | HttpPost string string "(string \<times> string) list"

datatype http_result = TransportError error | Response int string

datatype outcome = Returned | Fatal | Panic

text \<open>
  What the outside answers: the environment variables, the verdicts of the libraries,
  the clock, the calendar's answer and the answer to the \<open>k\<close>-th POST of the run.
\<close>

record world =
  godotenv_Load :: "error option"
  Getenv :: "string \<Rightarrow> string"
  json_Unmarshal :: "string \<Rightarrow> error option"
  calendar_NewService :: "string \<Rightarrow> error option"
  LoadLocation_error :: "error option"
  time_Now :: Time
  Events_Do :: "string \<Rightarrow> error + Event list"
  http_Post :: "nat \<Rightarrow> string \<Rightarrow> string \<Rightarrow> (string \<times> string) list \<Rightarrow> http_result"

definition time_LoadLocation :: "world \<Rightarrow> string \<Rightarrow> error + int" where
  "time_LoadLocation w name =
     (case LoadLocation_error w of Some err \<Rightarrow> Inl err | None \<Rightarrow> Inr (9 * 60 * 60))"

subsection \<open>Texts\<close>

definition ibento_mei :: string where
  "ibento_mei = [CHR 0xE3, CHR 0x82, CHR 0xA4, CHR 0xE3, CHR 0x83, CHR 0x99, CHR 0xE3, CHR 0x83,
     CHR 0xB3, CHR 0xE3, CHR 0x83, CHR 0x88, CHR 0xE5, CHR 0x90, CHR 0x8D]"

definition setsumei :: string where
  "setsumei = [CHR 0xE8, CHR 0xAA, CHR 0xAC, CHR 0xE6, CHR 0x98, CHR 0x8E]"

definition basho :: string where
  "basho = [CHR 0xE5, CHR 0xA0, CHR 0xB4, CHR 0xE6, CHR 0x89, CHR 0x80]"

definition shuujitsu_ibento :: string where
  "shuujitsu_ibento = [CHR 0xE7, CHR 0xB5, CHR 0x82, CHR 0xE6, CHR 0x97, CHR 0xA5, CHR 0xE3,
     CHR 0x82, CHR 0xA4, CHR 0xE3, CHR 0x83, CHR 0x99, CHR 0xE3, CHR 0x83, CHR 0xB3, CHR 0xE3,
     CHR 0x83, CHR 0x88]"

definition kaishi_jikan :: string where
  "kaishi_jikan = [CHR 0xE9, CHR 0x96, CHR 0x8B, CHR 0xE5, CHR 0xA7, CHR 0x8B, CHR 0xE6, CHR 0x99,
     CHR 0x82, CHR 0xE9, CHR 0x96, CHR 0x93]"

definition shuuryou_jikan :: string where
  "shuuryou_jikan = [CHR 0xE7, CHR 0xB5, CHR 0x82, CHR 0xE4, CHR 0xBA, CHR 0x86, CHR 0xE6, CHR 0x99,
     CHR 0x82, CHR 0xE9, CHR 0x96, CHR 0x93]"

definition nl :: string where
  "nl = [CHR 0x0A]"

text \<open>\<open>fmt.Sprintf\<close> for formats whose only verb is \<open>%s\<close>, with string operands.\<close>

fun Sprintf :: "string \<Rightarrow> string list \<Rightarrow> string" where
  "Sprintf [] args = []"
| "Sprintf [c] args = [c]"
| "Sprintf (c # d # fs) args =
     (if c = CHR ''%'' \<and> d = CHR ''s'' then
        (case args of
           [] \<Rightarrow> ''%!s(MISSING)'' @ Sprintf fs []
         | a # as \<Rightarrow> a @ Sprintf fs as)
      else c # Sprintf (d # fs) args)"

subsection \<open>getCalendarService, getEvents, sendDiscordNotification\<close>

definition getCalendarService :: "world \<Rightarrow> error + Service" where
  "getCalendarService w =
     (let credentials = Getenv w ''GOOGLE_CREDENTIALS'' in
      if credentials = '''' then
        Inl (Errorf ''GOOGLE_CREDENTIALS environment variable not set'' [])
      else
        (case json_Unmarshal w credentials of
           Some err \<Rightarrow> Inl (Errorf ''unable to parse GOOGLE_CREDENTIALS: %v'' [E err])
         | None \<Rightarrow>
             (case calendar_NewService w credentials of
                Some err \<Rightarrow> Inl (Errorf ''unable to create Calendar client: %v'' [E err])
              | None \<Rightarrow> Inr (Service credentials))))"

definition getEvents :: "world \<Rightarrow> Service \<Rightarrow> string \<Rightarrow> effect list \<times> (error + Event list)" where
  "getEvents w srv calendarID = ([EventsList calendarID], Events_Do w calendarID)"

text \<open>
  \<open>json.Marshal\<close> of a map from strings to strings cannot fail, so its error branch is
  not a branch of the model. The first argument is \<open>http.Post\<close> as it answers this call.
  In \<open>src/main.go\<close> only status 200 is a success:
\<close>

definition sendDiscordNotification ::
  "(string \<Rightarrow> string \<Rightarrow> (string \<times> string) list \<Rightarrow> http_result) \<Rightarrow> string \<Rightarrow> string
     \<Rightarrow> effect list \<times> error option" where
  "sendDiscordNotification post webhookURL message =
     (let payload = [(''content'', message)] in
      ([HttpPost webhookURL ''application/json'' payload],
       case post webhookURL ''application/json'' payload of
         TransportError err \<Rightarrow> Some err
       | Response StatusCode Status \<Rightarrow>
           if StatusCode \<noteq> 200 then Some (Errorf ''failed to send notification: %v'' [S Status])
           else None))"

text \<open>and in \<open>src/unnamed/part_000\<close> status 204 is one too:\<close>

definition sendDiscordNotification_part_000 ::
  "(string \<Rightarrow> string \<Rightarrow> (string \<times> string) list \<Rightarrow> http_result) \<Rightarrow> string \<Rightarrow> string
     \<Rightarrow> effect list \<times> error option" where
  "sendDiscordNotification_part_000 post webhookURL message =
     (let payload = [(''content'', message)] in
      ([HttpPost webhookURL ''application/json'' payload],
       case post webhookURL ''application/json'' payload of
         TransportError err \<Rightarrow> Some err
       | Response StatusCode Status \<Rightarrow>
           if StatusCode \<noteq> 200 \<and> StatusCode \<noteq> 204 then
             Some (Errorf ''failed to send notification: %v'' [S Status])
           else None))"

subsection \<open>The body of the loop over the events\<close>

text \<open>
  The start and end of an event (the same lines in both files): the event is left with
  a line on the log, or the program panics on a nil pointer, or the two times and the
  all-day flag are there.
\<close>

datatype 'a step = Continue log_line | Panicked | Value 'a

definition event_times :: "Event \<Rightarrow> (Time \<times> Time \<times> bool) step" where
  "event_times event =
     (case Start event of
        None \<Rightarrow> Panicked
      | Some start \<Rightarrow>
          if DateTime start \<noteq> '''' then
            (case time_Parse RFC3339 (DateTime start) of
               Inl err \<Rightarrow> Continue (Printf ''Unable to parse event DateTime: %v'' [E err])
             | Inr startTime \<Rightarrow>
                 (case End event of
                    None \<Rightarrow> Panicked
                  | Some en \<Rightarrow>
                      (case time_Parse RFC3339 (DateTime en) of
                         Inl err \<Rightarrow>
                           Continue (Printf ''Unable to parse event End DateTime: %v'' [E err])
                       | Inr endTime \<Rightarrow> Value (startTime, endTime, False))))
          else if Date start \<noteq> '''' then
            (case time_Parse Layout_2006_01_02 (Date start) of
               Inl err \<Rightarrow> Continue (Printf ''Unable to parse event Start Date: %v'' [E err])
             | Inr startTime \<Rightarrow>
                 (case End event of
                    None \<Rightarrow> Panicked
                  | Some en \<Rightarrow>
                      (case time_Parse Layout_2006_01_02 (Date en) of
                         Inl err \<Rightarrow>
                           Continue (Printf ''Unable to parse event End Date: %v'' [E err])
                       | Inr endTime \<Rightarrow> Value (startTime, endTime, True))))
          else Continue (Printf ''No valid start time found for event: %s'' [S (Summary event)]))"

text \<open>The notification text (the same lines in both files).\<close>

definition notification_message :: "Event \<Rightarrow> Time \<Rightarrow> Time \<Rightarrow> bool \<Rightarrow> string" where
  "notification_message event startTime endTime isAllDay =
     (if isAllDay then
        Sprintf (''@here'' @ nl @ ibento_mei @ '': %s'' @ nl @ basho @ '': %s'' @ nl
                 @ shuujitsu_ibento)
          [Summary event, Location event]
      else
        Sprintf (''@here'' @ nl @ ibento_mei @ '': %s'' @ nl @ basho @ '': %s'' @ nl
                 @ kaishi_jikan @ '': %s'' @ nl @ shuuryou_jikan @ '': %s'')
          [Summary event, Location event, Format_minute startTime, Format_minute endTime])"

text \<open>
  One turn of the loop of \<open>src/main.go\<close>, for the \<open>k\<close>-th POST of the run if it comes to
  one: the effects, and whether the program panicked.
\<close>

definition loop_body ::
  "world \<Rightarrow> string \<Rightarrow> int \<Rightarrow> Time \<Rightarrow> Time \<Rightarrow> nat \<Rightarrow> Event \<Rightarrow> effect list \<times> bool" where
  "loop_body w webhookURL location tomorrowStart tomorrowEnd k event =
     (case event_times event of
        Panicked \<Rightarrow> ([], True)
      | Continue line \<Rightarrow> ([Log line], False)
      | Value (startTime0, endTime0, isAllDay) \<Rightarrow>
          (let startTime = In startTime0 location;
               endTime = In endTime0 location
           in if After startTime tomorrowStart \<and> Before startTime tomorrowEnd then
                (let details =
                       [Log (Printf (ibento_mei @ '': %s'') [S (Summary event)]),
                        Log (Printf (setsumei @ '': %s'') [S (Description event)]),
                        Log (Printf (basho @ '': %s'') [S (Location event)])]
                       @ (if isAllDay then
                            [Log (Printf (shuujitsu_ibento @ '': %s'') [S (Summary event)])]
                          else
                            [Log (Printf (kaishi_jikan @ '': %s'') [S (Format_second startTime)]),
                             Log (Printf (shuuryou_jikan @ '': %s'') [S (Format_second endTime)])]);
                     message = notification_message event startTime endTime isAllDay;
                     (posted, err) = sendDiscordNotification (http_Post w k) webhookURL message
                 in (details @ posted
                     @ [Log (case err of
                               Some e \<Rightarrow> Printf ''Error sending Discord notification: %v'' [E e]
                             | None \<Rightarrow>
                                 Printf ''Notification sent for event: %s'' [S (Summary event)])],
                     False))
              else ([], False)))"

text \<open>
  One turn of the loop of \<open>src/unnamed/part_000\<close>, which first logs six fields of the
  event, two of them through the \<open>Start\<close> and \<open>End\<close> pointers.
\<close>

definition loop_body_part_000 ::
  "world \<Rightarrow> string \<Rightarrow> int \<Rightarrow> Time \<Rightarrow> Time \<Rightarrow> nat \<Rightarrow> Event \<Rightarrow> effect list \<times> bool" where
  "loop_body_part_000 w webhookURL location tomorrowStart tomorrowEnd k event =
     (let fields =
            [Log (Println [S ''Event ID:'', S (Id_ev event)]),
             Log (Println [S ''Event Summary:'', S (Summary event)]),
             Log (Println [S ''Event Description:'', S (Description event)]),
             Log (Println [S ''Event Location:'', S (Location event)])]
      in case Start event of
           None \<Rightarrow> (fields, True)
         | Some start \<Rightarrow>
             (case End event of
                None \<Rightarrow>
                  (fields @ [Log (Println [S ''Event Start DateTime:'', S (DateTime start)])], True)
              | Some en \<Rightarrow>
                  (let fields = fields
                         @ [Log (Println [S ''Event Start DateTime:'', S (DateTime start)]),
                            Log (Println [S ''Event End DateTime:'', S (DateTime en)])]
                   in case event_times event of
                        Panicked \<Rightarrow> (fields, True)
                      | Continue line \<Rightarrow> (fields @ [Log line], False)
                      | Value (startTime0, endTime0, isAllDay) \<Rightarrow>
                          (let startTime = In startTime0 location;
                               endTime = In endTime0 location
                           in if After startTime tomorrowStart \<and> Before startTime tomorrowEnd
                              then
                                (let details =
                                       [Log (Println [S (ibento_mei @ '':''), S (Summary event)]),
                                        Log (Println [S (setsumei @ '':''), S (Description event)]),
                                        Log (Println [S (basho @ '':''), S (Location event)])]
                                       @ (if isAllDay then
                                            [Log (Println [S (shuujitsu_ibento @ '':''),
                                                           S (Summary event)])]
                                          else
                                            [Log (Println [S (kaishi_jikan @ '':''),
                                                           S (Format_minute startTime)]),
                                             Log (Println [S (shuuryou_jikan @ '':''),
                                                           S (Format_minute endTime)])]);
                                     message =
                                       notification_message event startTime endTime isAllDay;
                                     (posted, err) =
                                       sendDiscordNotification_part_000 (http_Post w k)
                                         webhookURL message
                                 in (fields @ details @ posted
                                     @ [Log (case err of
                                               Some e \<Rightarrow>
                                                 Printf ''Error sending Discord notification: %v''
                                                   [E e]
                                             | None \<Rightarrow>
                                                 Println [S ''Notification sent for event:'',
                                                          S (Summary event)])],
                                     False))
                              else (fields, False)))))"

subsection \<open>main\<close>

definition posts :: "effect list \<Rightarrow> (string \<times> string \<times> (string \<times> string) list) list" where
  "posts effs =
     concat (map (\<lambda>e. case e of HttpPost url ct payload \<Rightarrow> [(url, ct, payload)] | _ \<Rightarrow> []) effs)"

text \<open>
  The loop runs the body on each event in turn, counting the POSTs made so far, and
  stops where the body panics.
\<close>

fun events_loop ::
  "(nat \<Rightarrow> Event \<Rightarrow> effect list \<times> bool) \<Rightarrow> nat \<Rightarrow> Event list \<Rightarrow> effect list \<times> outcome" where
  "events_loop body k [] = ([], Returned)"
| "events_loop body k (event # events) =
     (case body k event of
        (effs, True) \<Rightarrow> (effs, Panic)
      | (effs, False) \<Rightarrow>
          (case events_loop body (k + length (posts effs)) events of
             (effs', out) \<Rightarrow> (effs @ effs', out)))"

definition tomorrow :: "Time \<Rightarrow> int \<Rightarrow> Time \<times> Time" where
  "tomorrow now location =
     (let tomorrowStart = time_Date (Year now) (Month now) (Day now + 1) 0 0 0 0 location;
          tomorrowEnd = Add tomorrowStart (24 * time_Hour)
      in (tomorrowStart, tomorrowEnd))"

text \<open>\<open>main\<close> of \<open>src/main.go\<close>.\<close>

definition main :: "world \<Rightarrow> effect list \<times> outcome" where
  "main w =
     (case godotenv_Load w of
        Some err \<Rightarrow> ([Log (Printf ''Error loading .env file'' [])], Fatal)
      | None \<Rightarrow>
     (case getCalendarService w of
        Inl err \<Rightarrow> ([Log (Printf ''Unable to retrieve Calendar client: %v'' [E err])], Fatal)
      | Inr calendarService \<Rightarrow>
     (let calendarID = Getenv w ''GOOGLE_CALENDAR_ID'';
          webhookURL = Getenv w ''DISCORD_WEBHOOK_URL''
      in case time_LoadLocation w ''Asia/Tokyo'' of
           Inl err \<Rightarrow> ([Log (Printf ''Unable to load location: %v'' [E err])], Fatal)
         | Inr location \<Rightarrow>
     (let now = In (time_Now w) location;
          (tomorrowStart, tomorrowEnd) = tomorrow now location;
          (listed, res) = getEvents w calendarService calendarID
      in case res of
           Inl err \<Rightarrow> (listed @ [Log (Printf ''Unable to retrieve events: %v'' [E err])], Fatal)
         | Inr events \<Rightarrow>
             (case events_loop (loop_body w webhookURL location tomorrowStart tomorrowEnd) 0 events
              of (effs, out) \<Rightarrow> (listed @ effs, out))))))"

text \<open>\<open>main\<close> of \<open>src/unnamed/part_000\<close>.\<close>

definition main_part_000 :: "world \<Rightarrow> effect list \<times> outcome" where
  "main_part_000 w =
     (case getCalendarService w of
        Inl err \<Rightarrow> ([Log (Printf ''Unable to retrieve Calendar client: %v'' [E err])], Fatal)
      | Inr calendarService \<Rightarrow>
     (let calendarID = Getenv w ''GOOGLE_CALENDAR_ID'';
          webhookURL = Getenv w ''DISCORD_WEBHOOK_URL'';
          location = time_FixedZone ''Asia/Tokyo'' (9 * 60 * 60);
          now = In (time_Now w) location;
          (tomorrowStart, tomorrowEnd) = tomorrow now location;
          (listed, res) = getEvents w calendarService calendarID
      in case res of
           Inl err \<Rightarrow> (listed @ [Log (Printf ''Unable to retrieve events: %v'' [E err])], Fatal)
         | Inr events \<Rightarrow>
             (case events_loop (loop_body_part_000 w webhookURL location tomorrowStart tomorrowEnd)
                     0 events
              of (effs, out) \<Rightarrow> (listed @ effs, out))))"

section \<open>Notions for the statements\<close>

text \<open>
  The instant of a time in nanoseconds since the Unix epoch. It orders times as \<open>After\<close>
  and \<open>Before\<close> do when the nanoseconds are within the second, which holds of every time
  that \<open>time.Date\<close>, \<open>Add\<close> or \<open>time.Parse\<close> returns.
\<close>

definition wf_time :: "Time \<Rightarrow> bool" where
  "wf_time t = (0 \<le> nsec t \<and> nsec t < 1000000000)"

definition instant :: "Time \<Rightarrow> int" where
  "instant t = unixSec t * 1000000000 + nsec t"

text \<open>The requests that leave the process: everything but the lines on the log.\<close>

definition network_calls :: "effect list \<Rightarrow> effect list" where
  "network_calls effs = filter (\<lambda>e. case e of Log line \<Rightarrow> False | _ \<Rightarrow> True) effs"

subsection \<open>An example run\<close>

text \<open>
  The clock shows 1 May 2024, 09:00 in Tokyo, so the window is 2 May 2024 from 00:00 to
  24:00 Tokyo time.
\<close>

definition example_now :: Time where
  "example_now = \<lparr>unixSec = 1714521600, nsec = 0, loc = 0\<rparr>"

definition example_tomorrowStart :: Time where
  "example_tomorrowStart = \<lparr>unixSec = 1714575600, nsec = 0, loc = 32400\<rparr>"

definition example_tomorrowEnd :: Time where
  "example_tomorrowEnd = \<lparr>unixSec = 1714662000, nsec = 0, loc = 32400\<rparr>"

definition timed_event :: Event where
  "timed_event =
     \<lparr>Id_ev = ''1'', Summary = ''Meet'', Description = '''', Location = ''Room'',
      Start = Some \<lparr>DateTime = ''2024-05-02T10:00:00+09:00'', Date = ''''\<rparr>,
      End = Some \<lparr>DateTime = ''2024-05-02T11:00:00+09:00'', Date = ''''\<rparr>\<rparr>"

definition all_day_event :: Event where
  "all_day_event =
     \<lparr>Id_ev = ''2'', Summary = ''Holiday'', Description = '''', Location = ''Office'',
      Start = Some \<lparr>DateTime = '''', Date = ''2024-05-02''\<rparr>,
      End = Some \<lparr>DateTime = '''', Date = ''2024-05-03''\<rparr>\<rparr>"

definition both_forms_event :: Event where
  "both_forms_event =
     \<lparr>Id_ev = ''3'', Summary = ''Both'', Description = '''', Location = '''',
      Start = Some \<lparr>DateTime = ''2024-05-02T10:00:00+09:00'', Date = ''2024-05-02''\<rparr>,
      End = Some \<lparr>DateTime = ''2024-05-02T11:00:00+09:00'', Date = ''2024-05-03''\<rparr>\<rparr>"

definition mixed_event :: Event where
  "mixed_event =
     \<lparr>Id_ev = ''4'', Summary = ''Mixed'', Description = '''', Location = '''',
      Start = Some \<lparr>DateTime = ''2024-05-02T10:00:00+09:00'', Date = ''''\<rparr>,
      End = Some \<lparr>DateTime = '''', Date = ''2024-05-03''\<rparr>\<rparr>"

definition example_world :: world where
  "example_world =
     \<lparr>godotenv_Load = None,
      Getenv = (\<lambda>name. if name = ''GOOGLE_CREDENTIALS'' then ''{}''
                       else if name = ''GOOGLE_CALENDAR_ID'' then ''primary''
                       else if name = ''DISCORD_WEBHOOK_URL'' then ''https://discord.example/hook''
                       else ''''),
      json_Unmarshal = (\<lambda>s. if s = ''{}'' then None else Some (External ''invalid character'')),
      calendar_NewService = (\<lambda>s. None),
      LoadLocation_error = None,
      time_Now = example_now,
      Events_Do = (\<lambda>c. Inr [all_day_event, timed_event]),
      http_Post = (\<lambda>k url ct payload. Response 204 ''204 No Content'')\<rparr>"

text \<open>The same world with a credential that is not JSON.\<close>

definition bad_credentials_world :: world where
  "bad_credentials_world =
     example_world\<lparr>Getenv := (\<lambda>name. if name = ''GOOGLE_CREDENTIALS'' then ''not json'' else '''')\<rparr>"

section \<open>Lemmas about the model\<close>

subsection \<open>The POSTs among the effects\<close>

lemma posts_Nil: "posts [] = []"
  by (simp add: posts_def)

lemma posts_Log: "posts (Log l # effs) = posts effs"
  by (simp add: posts_def)

lemma posts_HttpPost: "posts (HttpPost url ct payload # effs) = (url, ct, payload) # posts effs"
  by (simp add: posts_def)

lemma posts_EventsList: "posts (EventsList c # effs) = posts effs"
  by (simp add: posts_def)

lemma posts_append: "posts (xs @ ys) = posts xs @ posts ys"
  by (simp add: posts_def)

lemmas posts_simps = posts_Nil posts_Log posts_HttpPost posts_EventsList posts_append

lemma fst_sendDiscordNotification:
  "fst (sendDiscordNotification post url message)
     = [HttpPost url ''application/json'' [(''content'', message)]]"
  by (simp add: sendDiscordNotification_def Let_def)

lemma fst_sendDiscordNotification_part_000:
  "fst (sendDiscordNotification_part_000 post url message)
     = [HttpPost url ''application/json'' [(''content'', message)]]"
  by (simp add: sendDiscordNotification_part_000_def Let_def)

subsection \<open>Times\<close>

lemma After_In: "After (In s l) t = After s t"
  by (simp add: After_def In_def)

lemma Before_In: "Before (In s l) t = Before s t"
  by (simp add: Before_def In_def)

lemma After_instant: "wf_time s \<Longrightarrow> wf_time t \<Longrightarrow> After s t = (instant t < instant s)"
  unfolding After_def instant_def wf_time_def by auto

lemma Before_instant: "wf_time s \<Longrightarrow> wf_time t \<Longrightarrow> Before s t = (instant s < instant t)"
  unfolding Before_def instant_def wf_time_def by auto

lemma wf_time_Date: "wf_time (time_Date y m d hh mm ss ns l)"
  by (simp add: time_Date_def wf_time_def norm_def Let_def)

lemma wf_time_Add: "wf_time (Add t d)"
  by (simp add: Add_def wf_time_def)

lemma wf_time_In: "wf_time (In t l) = wf_time t"
  by (simp add: In_def wf_time_def)

lemma wf_parse_RFC3339: "parse_RFC3339 v = Some t \<Longrightarrow> wf_time t"
  by (auto simp: parse_RFC3339_def wf_time_In wf_time_Add split: Option.bind_splits prod.splits)

lemma wf_parse_date: "parse_date v = Some t \<Longrightarrow> wf_time t"
  by (auto simp: parse_date_def wf_time_Date split: Option.bind_splits prod.splits)

lemma wf_time_Parse: "time_Parse l v = Inr t \<Longrightarrow> wf_time t"
  by (auto simp: time_Parse_def wf_parse_RFC3339 wf_parse_date split: layout.splits option.splits)

lemma unixToInternal_eq: "unixToInternal = 719162 * 86400"
  by (simp add: unixToInternal_def)

lemma parse_date_midnight:
  "parse_date v = Some t \<Longrightarrow> unixSec t mod 86400 = 0 \<and> nsec t = 0 \<and> loc t = 0"
  by (auto simp: parse_date_def time_Date_def norm_def Let_def time_UTC_def unixToInternal_eq
      split: Option.bind_splits prod.splits)

lemma time_Parse_date_midnight:
  "time_Parse Layout_2006_01_02 v = Inr t \<Longrightarrow> unixSec t mod 86400 = 0 \<and> nsec t = 0 \<and> loc t = 0"
  by (auto simp: time_Parse_def dest: parse_date_midnight split: option.splits)

lemma parse_RFC3339_empty: "parse_RFC3339 '''' = None"
  by (simp add: parse_RFC3339_def getLongYear_def)

lemma parse_date_empty: "parse_date '''' = None"
  by (simp add: parse_date_def getLongYear_def)

lemma time_Parse_empty: "time_Parse l '''' = Inl (ParseError (layout_text l) '''')"
  by (cases l) (simp_all add: time_Parse_def parse_RFC3339_empty parse_date_empty)

subsection \<open>The start and end of an event\<close>

lemma event_times_timed:
  "Start event = Some start \<Longrightarrow> End event = Some en \<Longrightarrow> DateTime start \<noteq> [] \<Longrightarrow>
   time_Parse RFC3339 (DateTime start) = Inr s \<Longrightarrow> time_Parse RFC3339 (DateTime en) = Inr e \<Longrightarrow>
   event_times event = Value (s, e, False)"
  by (simp add: event_times_def)

lemma event_times_all_day:
  "Start event = Some start \<Longrightarrow> End event = Some en \<Longrightarrow> DateTime start = [] \<Longrightarrow>
   Date start \<noteq> [] \<Longrightarrow>
   time_Parse Layout_2006_01_02 (Date start) = Inr s \<Longrightarrow>
   time_Parse Layout_2006_01_02 (Date en) = Inr e \<Longrightarrow>
   event_times event = Value (s, e, True)"
  by (simp add: event_times_def)

lemma event_times_Value_all_day:
  assumes "event_times event = Value (s, e, a)" and "Start event = Some start"
    and "DateTime start = ''''"
  shows "a"
  using assms by (auto simp: event_times_def split: if_splits sum.splits option.splits)

lemma event_times_Value_timed:
  assumes "event_times event = Value (s, e, a)" and "Start event = Some start"
    and "End event = Some en" and "DateTime start \<noteq> ''''"
  shows "\<not> a \<and> time_Parse RFC3339 (DateTime start) = Inr s
         \<and> time_Parse RFC3339 (DateTime en) = Inr e"
  using assms by (auto simp: event_times_def split: if_splits sum.splits option.splits)

lemma event_times_unpopulated:
  assumes "Start event = Some start" and "End event = Some en"
    and "\<not> (DateTime start \<noteq> '''' \<and> DateTime en \<noteq> '''')"
    and "\<not> (Date start \<noteq> '''' \<and> Date en \<noteq> '''')"
  shows "\<exists>line. event_times event = Continue line"
  using assms
  by (auto simp: event_times_def time_Parse_empty split: sum.splits)

lemma event_times_ignores_dates:
  assumes "Start event = Some start" and "End event = Some en" and "DateTime start \<noteq> ''''"
  shows "event_times (event\<lparr>Start := Some (start\<lparr>Date := ''''\<rparr>), End := Some (en\<lparr>Date := ''''\<rparr>)\<rparr>)
         = event_times event"
  using assms by (simp add: event_times_def split: sum.splits)

subsection \<open>One turn of the loop\<close>

lemma loop_body_Continue:
  "event_times event = Continue line \<Longrightarrow>
   loop_body w url location ts te k event = ([Log line], False)"
  by (simp add: loop_body_def)

lemma loop_body_Value:
  "event_times event = Value (s, en, a) \<Longrightarrow>
   posts (fst (loop_body w url location ts te k event))
     = (if After s ts \<and> Before s te
        then [(url, ''application/json'',
               [(''content'', notification_message event (In s location) (In en location) a)])]
        else [])
   \<and> \<not> snd (loop_body w url location ts te k event)"
  by (simp add: loop_body_def After_In Before_In posts_simps Let_def split_beta
      fst_sendDiscordNotification)

lemma loop_body_part_000_Continue:
  "Start event = Some start \<Longrightarrow> End event = Some en \<Longrightarrow> event_times event = Continue line \<Longrightarrow>
   posts (fst (loop_body_part_000 w url location ts te k event)) = []
   \<and> Log line \<in> set (fst (loop_body_part_000 w url location ts te k event))
   \<and> \<not> snd (loop_body_part_000 w url location ts te k event)"
  by (simp add: loop_body_part_000_def posts_simps)

lemma loop_body_part_000_Value:
  "Start event = Some start \<Longrightarrow> End event = Some e \<Longrightarrow> event_times event = Value (s, en, a) \<Longrightarrow>
   posts (fst (loop_body_part_000 w url location ts te k event))
     = (if After s ts \<and> Before s te
        then [(url, ''application/json'',
               [(''content'', notification_message event (In s location) (In en location) a)])]
        else [])
   \<and> \<not> snd (loop_body_part_000 w url location ts te k event)"
  by (simp add: loop_body_part_000_def After_In Before_In posts_simps Let_def split_beta
      fst_sendDiscordNotification_part_000)

lemma posts_loop_body_part_000:
  assumes "Start event = Some start" and "End event = Some en"
  shows "posts (fst (loop_body_part_000 w url location ts te k event))
         = posts (fst (loop_body w url location ts te k event))"
proof (cases "event_times event")
  case (Continue line)
  then show ?thesis
    using loop_body_Continue [OF Continue] loop_body_part_000_Continue [OF assms Continue]
    by (simp add: posts_simps)
next
  case Panicked
  then show ?thesis using assms by (simp add: loop_body_def loop_body_part_000_def posts_simps)
next
  case (Value v)
  obtain s e a where v: "v = (s, e, a)" by (cases v)
  show ?thesis
    using loop_body_Value [of event s e a] loop_body_part_000_Value [OF assms, of s e a] Value v
    by simp
qed

lemma posts_loop_body_cases:
  assumes "posts (fst (loop_body w url location ts te k event)) \<noteq> []"
  shows "\<exists>s e a. event_times event = Value (s, e, a) \<and> After s ts \<and> Before s te
           \<and> posts (fst (loop_body w url location ts te k event))
               = [(url, ''application/json'',
                   [(''content'', notification_message event (In s location) (In e location) a)])]"
proof (cases "event_times event")
  case (Continue line)
  then show ?thesis using assms loop_body_Continue [OF Continue] by (simp add: posts_simps)
next
  case Panicked
  then show ?thesis using assms by (simp add: loop_body_def posts_simps)
next
  case (Value v)
  obtain s e a where v: "v = (s, e, a)" by (cases v)
  show ?thesis
    using loop_body_Value [of event s e a w url location ts te k] Value v assms
    by (auto split: if_splits)
qed

subsection \<open>The notification text\<close>

lemma notification_message_all_day:
  "notification_message event s e True
     = ''@here'' @ nl @ ibento_mei @ '': '' @ Summary event @ nl @ basho @ '': '' @ Location event
       @ nl @ shuujitsu_ibento"
  by (simp add: notification_message_def nl_def ibento_mei_def basho_def shuujitsu_ibento_def)

lemma notification_message_timed:
  "notification_message event s e False
     = ''@here'' @ nl @ ibento_mei @ '': '' @ Summary event @ nl @ basho @ '': '' @ Location event
       @ nl @ kaishi_jikan @ '': '' @ Format_minute s @ nl @ shuuryou_jikan @ '': ''
       @ Format_minute e"
  by (simp add: notification_message_def nl_def ibento_mei_def basho_def kaishi_jikan_def
      shuuryou_jikan_def)

lemma appendInt_clock:
  "appendInt 10 2 = ''10''" "appendInt 11 2 = ''11''" "appendInt 0 2 = ''00''"
  by code_simp+

subsection \<open>The example\<close>

lemma example_window:
  "tomorrow (In example_now 32400) 32400 = (example_tomorrowStart, example_tomorrowEnd)"
  by code_simp

lemma wf_example_window: "wf_time example_tomorrowStart" "wf_time example_tomorrowEnd"
  by (simp_all add: wf_time_def example_tomorrowStart_def example_tomorrowEnd_def)

lemma parse_example_times:
  "time_Parse RFC3339 ''2024-05-02T10:00:00+09:00''
     = Inr \<lparr>unixSec = 1714611600, nsec = 0, loc = 32400\<rparr>"
  "time_Parse RFC3339 ''2024-05-02T11:00:00+09:00''
     = Inr \<lparr>unixSec = 1714615200, nsec = 0, loc = 32400\<rparr>"
  "time_Parse RFC3339 ''2024-05-02T12:30:00+09:00''
     = Inr \<lparr>unixSec = 1714620600, nsec = 0, loc = 32400\<rparr>"
  "time_Parse Layout_2006_01_02 ''2024-05-02'' = Inr \<lparr>unixSec = 1714608000, nsec = 0, loc = 0\<rparr>"
  "time_Parse Layout_2006_01_02 ''2024-05-03'' = Inr \<lparr>unixSec = 1714694400, nsec = 0, loc = 0\<rparr>"
  by code_simp+

section \<open>The claims\<close>

text \<open>
  C1. An event with a full timestamp on its start and on its end, both of which parse,
  leads to a POST exactly if the instant of its start is strictly after the start of the
  window and strictly before its end; the conversion to the Tokyo offset does not move
  the instant. A start that falls on either bound of the window leads to no POST. This
  holds of the loop in both files.
\<close>

theorem timed_event_notified_iff_strictly_inside:
  assumes "Start event = Some start" and "End event = Some en"
    and "DateTime start \<noteq> ''''"
    and "time_Parse RFC3339 (DateTime start) = Inr startTime"
    and "time_Parse RFC3339 (DateTime en) = Inr endTime"
    and "wf_time tomorrowStart" and "wf_time tomorrowEnd"
  shows "(posts (fst (loop_body w webhookURL location tomorrowStart tomorrowEnd k event)) \<noteq> []
           \<longleftrightarrow> instant tomorrowStart < instant startTime \<and> instant startTime < instant tomorrowEnd)
       \<and> (posts (fst (loop_body_part_000 w webhookURL location tomorrowStart tomorrowEnd k event))
            \<noteq> []
           \<longleftrightarrow> instant tomorrowStart < instant startTime \<and> instant startTime < instant tomorrowEnd)
       \<and> (instant startTime = instant tomorrowStart \<or> instant startTime = instant tomorrowEnd
           \<longrightarrow> posts (fst (loop_body w webhookURL location tomorrowStart tomorrowEnd k event)) = []
             \<and> posts (fst (loop_body_part_000 w webhookURL location tomorrowStart tomorrowEnd k
                             event)) = [])"
proof -
  have v: "event_times event = Value (startTime, endTime, False)"
    using assms(1-5) by (rule event_times_timed)
  have wf: "wf_time startTime"
    using assms(4) by (rule wf_time_Parse)
  have a: "After startTime tomorrowStart = (instant tomorrowStart < instant startTime)"
    using wf assms(6) by (rule After_instant)
  have b: "Before startTime tomorrowEnd = (instant startTime < instant tomorrowEnd)"
    using wf assms(7) by (rule Before_instant)
  show ?thesis
    using loop_body_Value [OF v, of w webhookURL location tomorrowStart tomorrowEnd k]
      loop_body_part_000_Value [OF assms(1,2) v, of w webhookURL location tomorrowStart
        tomorrowEnd k]
    by (auto simp: a b)
qed

theorem timed_event_notified_iff_strictly_inside_witness:
  "Start timed_event = Some \<lparr>DateTime = ''2024-05-02T10:00:00+09:00'', Date = ''''\<rparr>
   \<and> End timed_event = Some \<lparr>DateTime = ''2024-05-02T11:00:00+09:00'', Date = ''''\<rparr>
   \<and> instant example_tomorrowStart < instant \<lparr>unixSec = 1714611600, nsec = 0, loc = 32400\<rparr>
   \<and> instant \<lparr>unixSec = 1714611600, nsec = 0, loc = 32400\<rparr> < instant example_tomorrowEnd
   \<and> posts (fst (loop_body example_world ''https://discord.example/hook'' 32400
                   example_tomorrowStart example_tomorrowEnd 0 timed_event)) \<noteq> []
   \<and> posts (fst (loop_body_part_000 example_world ''https://discord.example/hook'' 32400
                   example_tomorrowStart example_tomorrowEnd 0 timed_event)) \<noteq> []"
proof -
  have 1: "Start timed_event = Some \<lparr>DateTime = ''2024-05-02T10:00:00+09:00'', Date = ''''\<rparr>"
    and 2: "End timed_event = Some \<lparr>DateTime = ''2024-05-02T11:00:00+09:00'', Date = ''''\<rparr>"
    by (simp_all add: timed_event_def)
  have 3: "DateTime \<lparr>DateTime = ''2024-05-02T10:00:00+09:00'', Date = ''''\<rparr> \<noteq> ''''"
    by simp
  have 4: "time_Parse RFC3339 (DateTime \<lparr>DateTime = ''2024-05-02T10:00:00+09:00'', Date = ''''\<rparr>)
           = Inr \<lparr>unixSec = 1714611600, nsec = 0, loc = 32400\<rparr>"
    and 5: "time_Parse RFC3339 (DateTime \<lparr>DateTime = ''2024-05-02T11:00:00+09:00'', Date = ''''\<rparr>)
           = Inr \<lparr>unixSec = 1714615200, nsec = 0, loc = 32400\<rparr>"
    by (simp_all add: parse_example_times)
  have i: "instant example_tomorrowStart < instant \<lparr>unixSec = 1714611600, nsec = 0, loc = 32400\<rparr>"
    "instant \<lparr>unixSec = 1714611600, nsec = 0, loc = 32400\<rparr> < instant example_tomorrowEnd"
    by (simp_all add: instant_def example_tomorrowStart_def example_tomorrowEnd_def)
  show ?thesis
    using timed_event_notified_iff_strictly_inside [OF 1 2 3 4 5 wf_example_window,
        of example_world "''https://discord.example/hook''" 32400 0] 1 2 i
    by simp
qed

text \<open>
  C2. The claim holds of \<open>src/unnamed/part_000\<close> and fails in \<open>src/main.go\<close>, whose
  \<open>sendDiscordNotification\<close> compares the status with 200 alone: an answer 204 comes back
  as an error there, and as success in the other file.
\<close>

theorem status_204_is_an_error_in_main_go:
  "snd (sendDiscordNotification (\<lambda>url ct payload. Response 204 ''204 No Content'') webhookURL
          message)
     = Some (Errorf ''failed to send notification: %v'' [S ''204 No Content''])
   \<and> snd (sendDiscordNotification_part_000 (\<lambda>url ct payload. Response 204 ''204 No Content'')
            webhookURL message) = None"
  by (simp add: sendDiscordNotification_def sendDiscordNotification_part_000_def Let_def)

text \<open>
  C3. An event with a date on its start and on its end and no timestamp on its start,
  both dates parsing, has its start at midnight UTC of the start date, and leads to a
  POST exactly if that instant is strictly after the start of the window and strictly
  before its end.
\<close>

theorem all_day_event_notified_iff_midnight_strictly_inside:
  assumes "Start event = Some start" and "End event = Some en"
    and "DateTime start = ''''" and "Date start \<noteq> ''''"
    and "time_Parse Layout_2006_01_02 (Date start) = Inr startTime"
    and "time_Parse Layout_2006_01_02 (Date en) = Inr endTime"
    and "wf_time tomorrowStart" and "wf_time tomorrowEnd"
  shows "unixSec startTime mod 86400 = 0 \<and> nsec startTime = 0
       \<and> (posts (fst (loop_body w webhookURL location tomorrowStart tomorrowEnd k event)) \<noteq> []
           \<longleftrightarrow> instant tomorrowStart < instant startTime \<and> instant startTime < instant tomorrowEnd)
       \<and> (posts (fst (loop_body_part_000 w webhookURL location tomorrowStart tomorrowEnd k event))
            \<noteq> []
           \<longleftrightarrow> instant tomorrowStart < instant startTime \<and> instant startTime < instant tomorrowEnd)"
proof -
  have v: "event_times event = Value (startTime, endTime, True)"
    using assms(1-6) by (rule event_times_all_day)
  have wf: "wf_time startTime"
    using assms(5) by (rule wf_time_Parse)
  have a: "After startTime tomorrowStart = (instant tomorrowStart < instant startTime)"
    using wf assms(7) by (rule After_instant)
  have b: "Before startTime tomorrowEnd = (instant startTime < instant tomorrowEnd)"
    using wf assms(8) by (rule Before_instant)
  show ?thesis
    using loop_body_Value [OF v, of w webhookURL location tomorrowStart tomorrowEnd k]
      loop_body_part_000_Value [OF assms(1,2) v, of w webhookURL location tomorrowStart
        tomorrowEnd k]
      time_Parse_date_midnight [OF assms(5)]
    by (auto simp: a b)
qed

theorem all_day_event_notified_iff_midnight_strictly_inside_witness:
  "Start all_day_event = Some \<lparr>DateTime = '''', Date = ''2024-05-02''\<rparr>
   \<and> End all_day_event = Some \<lparr>DateTime = '''', Date = ''2024-05-03''\<rparr>
   \<and> time_Parse Layout_2006_01_02 ''2024-05-02'' = Inr \<lparr>unixSec = 1714608000, nsec = 0, loc = 0\<rparr>
   \<and> (1714608000 :: int) mod 86400 = 0
   \<and> posts (fst (loop_body example_world ''https://discord.example/hook'' 32400
                   example_tomorrowStart example_tomorrowEnd 0 all_day_event)) \<noteq> []
   \<and> posts (fst (loop_body_part_000 example_world ''https://discord.example/hook'' 32400
                   example_tomorrowStart example_tomorrowEnd 0 all_day_event)) \<noteq> []"
proof -
  have 1: "Start all_day_event = Some \<lparr>DateTime = '''', Date = ''2024-05-02''\<rparr>"
    and 2: "End all_day_event = Some \<lparr>DateTime = '''', Date = ''2024-05-03''\<rparr>"
    by (simp_all add: all_day_event_def)
  have 3: "DateTime \<lparr>DateTime = '''', Date = ''2024-05-02''\<rparr> = ''''"
    and 4: "Date \<lparr>DateTime = '''', Date = ''2024-05-02''\<rparr> \<noteq> ''''"
    by simp_all
  have 5: "time_Parse Layout_2006_01_02 (Date \<lparr>DateTime = '''', Date = ''2024-05-02''\<rparr>)
           = Inr \<lparr>unixSec = 1714608000, nsec = 0, loc = 0\<rparr>"
    and 6: "time_Parse Layout_2006_01_02 (Date \<lparr>DateTime = '''', Date = ''2024-05-03''\<rparr>)
           = Inr \<lparr>unixSec = 1714694400, nsec = 0, loc = 0\<rparr>"
    by (simp_all add: parse_example_times)
  have i: "instant example_tomorrowStart < instant \<lparr>unixSec = 1714608000, nsec = 0, loc = 0\<rparr>"
    "instant \<lparr>unixSec = 1714608000, nsec = 0, loc = 0\<rparr> < instant example_tomorrowEnd"
    by (simp_all add: instant_def example_tomorrowStart_def example_tomorrowEnd_def)
  show ?thesis
    using all_day_event_notified_iff_midnight_strictly_inside [OF 1 2 3 4 5 6 wf_example_window,
        of example_world "''https://discord.example/hook''" 32400 0] 1 2 i
    by (simp add: parse_example_times)
qed

text \<open>
  C4, as the claim states it, fails: an event on which both forms are populated goes
  down the branch of the timestamps and is notified when its start is in the window.
\<close>

theorem both_forms_event_is_notified:
  "Start both_forms_event
     = Some \<lparr>DateTime = ''2024-05-02T10:00:00+09:00'', Date = ''2024-05-02''\<rparr>
   \<and> End both_forms_event
     = Some \<lparr>DateTime = ''2024-05-02T11:00:00+09:00'', Date = ''2024-05-03''\<rparr>
   \<and> posts (fst (loop_body example_world ''https://discord.example/hook'' 32400
                   example_tomorrowStart example_tomorrowEnd 0 both_forms_event)) \<noteq> []
   \<and> posts (fst (loop_body_part_000 example_world ''https://discord.example/hook'' 32400
                   example_tomorrowStart example_tomorrowEnd 0 both_forms_event)) \<noteq> []"
proof -
  have 1: "Start both_forms_event
             = Some \<lparr>DateTime = ''2024-05-02T10:00:00+09:00'', Date = ''2024-05-02''\<rparr>"
    and 2: "End both_forms_event
             = Some \<lparr>DateTime = ''2024-05-02T11:00:00+09:00'', Date = ''2024-05-03''\<rparr>"
    by (simp_all add: both_forms_event_def)
  have v: "event_times both_forms_event
           = Value (\<lparr>unixSec = 1714611600, nsec = 0, loc = 32400\<rparr>,
                    \<lparr>unixSec = 1714615200, nsec = 0, loc = 32400\<rparr>, False)"
    by (rule event_times_timed [OF 1 2]) (simp_all add: parse_example_times)
  have a: "After \<lparr>unixSec = 1714611600, nsec = 0, loc = 32400\<rparr> example_tomorrowStart"
    "Before \<lparr>unixSec = 1714611600, nsec = 0, loc = 32400\<rparr> example_tomorrowEnd"
    by (simp_all add: After_def Before_def example_tomorrowStart_def example_tomorrowEnd_def)
  show ?thesis
    using loop_body_Value [OF v] loop_body_part_000_Value [OF 1 2 v] 1 2 a
    by simp
qed

text \<open>
  C4, amended. An event whose start and end are present and on which neither form is
  populated on both markers (the markers are mixed, or absent) is left with one line on
  the log and without a POST, and the loop goes on. An event on which both forms are
  populated is treated as the event with its dates removed: as a timed event.
\<close>

theorem unpopulated_event_skipped_and_both_forms_timed:
  assumes "Start event = Some start" and "End event = Some en"
  shows "(\<not> (DateTime start \<noteq> '''' \<and> DateTime en \<noteq> '''')
          \<and> \<not> (Date start \<noteq> '''' \<and> Date en \<noteq> '''') \<longrightarrow>
            (\<exists>line. loop_body w webhookURL location tomorrowStart tomorrowEnd k event
                       = ([Log line], False)
                  \<and> posts (fst (loop_body_part_000 w webhookURL location tomorrowStart tomorrowEnd
                                  k event)) = []
                  \<and> Log line \<in> set (fst (loop_body_part_000 w webhookURL location tomorrowStart
                                            tomorrowEnd k event))
                  \<and> \<not> snd (loop_body_part_000 w webhookURL location tomorrowStart tomorrowEnd k
                             event)))
       \<and> (DateTime start \<noteq> '''' \<and> DateTime en \<noteq> '''' \<and> Date start \<noteq> '''' \<and> Date en \<noteq> '''' \<longrightarrow>
            posts (fst (loop_body w webhookURL location tomorrowStart tomorrowEnd k event))
              = posts (fst (loop_body w webhookURL location tomorrowStart tomorrowEnd k
                   (event\<lparr>Start := Some (start\<lparr>Date := ''''\<rparr>), End := Some (en\<lparr>Date := ''''\<rparr>)\<rparr>)))
          \<and> posts (fst (loop_body_part_000 w webhookURL location tomorrowStart tomorrowEnd k event))
              = posts (fst (loop_body_part_000 w webhookURL location tomorrowStart tomorrowEnd k
                   (event\<lparr>Start := Some (start\<lparr>Date := ''''\<rparr>), End := Some (en\<lparr>Date := ''''\<rparr>)\<rparr>))))"
proof (intro conjI impI)
  assume "\<not> (DateTime start \<noteq> '''' \<and> DateTime en \<noteq> '''') \<and> \<not> (Date start \<noteq> '''' \<and> Date en \<noteq> '''')"
  then have "\<exists>line. event_times event = Continue line"
    using event_times_unpopulated [OF assms] by blast
  then obtain line where c: "event_times event = Continue line" ..
  show "\<exists>line. loop_body w webhookURL location tomorrowStart tomorrowEnd k event
                   = ([Log line], False)
              \<and> posts (fst (loop_body_part_000 w webhookURL location tomorrowStart tomorrowEnd k
                              event)) = []
              \<and> Log line \<in> set (fst (loop_body_part_000 w webhookURL location tomorrowStart
                                        tomorrowEnd k event))
              \<and> \<not> snd (loop_body_part_000 w webhookURL location tomorrowStart tomorrowEnd k event)"
    using loop_body_Continue [OF c] loop_body_part_000_Continue [OF assms c]
    by blast
next
  assume b: "DateTime start \<noteq> '''' \<and> DateTime en \<noteq> '''' \<and> Date start \<noteq> '''' \<and> Date en \<noteq> ''''"
  let ?event' = "event\<lparr>Start := Some (start\<lparr>Date := ''''\<rparr>), End := Some (en\<lparr>Date := ''''\<rparr>)\<rparr>"
  have t: "event_times ?event' = event_times event"
    using assms b by (simp add: event_times_ignores_dates)
  have f: "Summary ?event' = Summary event" "Location ?event' = Location event"
    "Description ?event' = Description event"
    by simp_all
  show 1: "posts (fst (loop_body w webhookURL location tomorrowStart tomorrowEnd k event))
        = posts (fst (loop_body w webhookURL location tomorrowStart tomorrowEnd k ?event'))"
    unfolding loop_body_def t f notification_message_def ..
  have "posts (fst (loop_body_part_000 w webhookURL location tomorrowStart tomorrowEnd k event))
        = posts (fst (loop_body w webhookURL location tomorrowStart tomorrowEnd k event))"
    using assms by (rule posts_loop_body_part_000)
  moreover have "posts (fst (loop_body_part_000 w webhookURL location tomorrowStart tomorrowEnd k
                               ?event'))
        = posts (fst (loop_body w webhookURL location tomorrowStart tomorrowEnd k ?event'))"
    by (rule posts_loop_body_part_000) simp_all
  ultimately show "posts (fst (loop_body_part_000 w webhookURL location tomorrowStart tomorrowEnd k
                                 event))
        = posts (fst (loop_body_part_000 w webhookURL location tomorrowStart tomorrowEnd k ?event'))"
    using 1 by simp
qed

theorem unpopulated_event_skipped_and_both_forms_timed_witness:
  "(\<exists>line. loop_body example_world ''https://discord.example/hook'' 32400 example_tomorrowStart
             example_tomorrowEnd 0 mixed_event = ([Log line], False))
   \<and> posts (fst (loop_body example_world ''https://discord.example/hook'' 32400
                   example_tomorrowStart example_tomorrowEnd 0 both_forms_event))
       = posts (fst (loop_body example_world ''https://discord.example/hook'' 32400
                       example_tomorrowStart example_tomorrowEnd 0
                       (both_forms_event
                          \<lparr>Start := Some \<lparr>DateTime = ''2024-05-02T10:00:00+09:00'', Date = ''''\<rparr>,
                           End := Some \<lparr>DateTime = ''2024-05-02T11:00:00+09:00'', Date = ''''\<rparr>\<rparr>)))"
proof -
  have 1: "Start mixed_event = Some \<lparr>DateTime = ''2024-05-02T10:00:00+09:00'', Date = ''''\<rparr>"
    and 2: "End mixed_event = Some \<lparr>DateTime = '''', Date = ''2024-05-03''\<rparr>"
    by (simp_all add: mixed_event_def)
  have 3: "Start both_forms_event
             = Some \<lparr>DateTime = ''2024-05-02T10:00:00+09:00'', Date = ''2024-05-02''\<rparr>"
    and 4: "End both_forms_event
             = Some \<lparr>DateTime = ''2024-05-02T11:00:00+09:00'', Date = ''2024-05-03''\<rparr>"
    by (simp_all add: both_forms_event_def)
  have a: "\<exists>line. loop_body example_world ''https://discord.example/hook'' 32400
             example_tomorrowStart example_tomorrowEnd 0 mixed_event = ([Log line], False)"
    using unpopulated_event_skipped_and_both_forms_timed [OF 1 2, of example_world
        "''https://discord.example/hook''" 32400 example_tomorrowStart example_tomorrowEnd 0]
    by auto
  show ?thesis
    using a unpopulated_event_skipped_and_both_forms_timed [OF 3 4, of example_world
        "''https://discord.example/hook''" 32400 example_tomorrowStart example_tomorrowEnd 0]
    by simp
qed

text \<open>
  C6. An all-day event that is notified is posted with the text made of the mention
  \<open>@here\<close>, the line of the title, the line of the location and the all-day marker, and
  nothing else. For the title Holiday and the location Office these are the bytes of
  the text in the claim.
\<close>

theorem all_day_message_text:
  assumes "Start event = Some start" and "End event = Some en" and "DateTime start = ''''"
    and "posts (fst (loop_body w webhookURL location tomorrowStart tomorrowEnd k event)) \<noteq> []"
  shows "posts (fst (loop_body w webhookURL location tomorrowStart tomorrowEnd k event))
           = [(webhookURL, ''application/json'',
               [(''content'',
                 ''@here'' @ nl @ ibento_mei @ '': '' @ Summary event @ nl @ basho @ '': ''
                 @ Location event @ nl @ shuujitsu_ibento)])]
       \<and> posts (fst (loop_body_part_000 w webhookURL location tomorrowStart tomorrowEnd k event))
           = posts (fst (loop_body w webhookURL location tomorrowStart tomorrowEnd k event))
       \<and> (Summary event = ''Holiday'' \<and> Location event = ''Office'' \<longrightarrow>
            posts (fst (loop_body w webhookURL location tomorrowStart tomorrowEnd k event))
              = [(webhookURL, ''application/json'',
                  [(''content'',
                    ''@here'' @ [CHR 0x0A, CHR 0xE3, CHR 0x82, CHR 0xA4, CHR 0xE3, CHR 0x83, CHR 0x99,
                      CHR 0xE3, CHR 0x83, CHR 0xB3, CHR 0xE3, CHR 0x83, CHR 0x88, CHR 0xE5, CHR 0x90,
                      CHR 0x8D] @ '': Holiday'' @ [CHR 0x0A, CHR 0xE5, CHR 0xA0, CHR 0xB4, CHR 0xE6,
                      CHR 0x89, CHR 0x80] @ '': Office'' @ [CHR 0x0A, CHR 0xE7, CHR 0xB5, CHR 0x82,
                      CHR 0xE6, CHR 0x97, CHR 0xA5, CHR 0xE3, CHR 0x82, CHR 0xA4, CHR 0xE3, CHR 0x83,
                      CHR 0x99, CHR 0xE3, CHR 0x83, CHR 0xB3, CHR 0xE3, CHR 0x83, CHR 0x88])])])"
proof -
  from posts_loop_body_cases [OF assms(4)] obtain s e a where
    v: "event_times event = Value (s, e, a)"
    and p: "posts (fst (loop_body w webhookURL location tomorrowStart tomorrowEnd k event))
              = [(webhookURL, ''application/json'',
                  [(''content'', notification_message event (In s location) (In e location) a)])]"
    by blast
  have a: "a" using v assms(1,3) by (rule event_times_Value_all_day)
  have 1: "posts (fst (loop_body w webhookURL location tomorrowStart tomorrowEnd k event))
           = [(webhookURL, ''application/json'',
               [(''content'',
                 ''@here'' @ nl @ ibento_mei @ '': '' @ Summary event @ nl @ basho @ '': ''
                 @ Location event @ nl @ shuujitsu_ibento)])]"
    using p a by (simp only: notification_message_all_day)
  have 2: "posts (fst (loop_body_part_000 w webhookURL location tomorrowStart tomorrowEnd k event))
           = posts (fst (loop_body w webhookURL location tomorrowStart tomorrowEnd k event))"
    using assms(1,2) by (rule posts_loop_body_part_000)
  show ?thesis
    unfolding 1 2 by (simp add: nl_def ibento_mei_def basho_def shuujitsu_ibento_def)
qed

theorem all_day_message_text_witness:
  "posts (fst (loop_body example_world ''https://discord.example/hook'' 32400
                 example_tomorrowStart example_tomorrowEnd 0 all_day_event))
     = [(''https://discord.example/hook'', ''application/json'',
         [(''content'',
           ''@here'' @ [CHR 0x0A, CHR 0xE3, CHR 0x82, CHR 0xA4, CHR 0xE3, CHR 0x83, CHR 0x99,
             CHR 0xE3, CHR 0x83, CHR 0xB3, CHR 0xE3, CHR 0x83, CHR 0x88, CHR 0xE5, CHR 0x90,
             CHR 0x8D] @ '': Holiday'' @ [CHR 0x0A, CHR 0xE5, CHR 0xA0, CHR 0xB4, CHR 0xE6,
             CHR 0x89, CHR 0x80] @ '': Office'' @ [CHR 0x0A, CHR 0xE7, CHR 0xB5, CHR 0x82,
             CHR 0xE6, CHR 0x97, CHR 0xA5, CHR 0xE3, CHR 0x82, CHR 0xA4, CHR 0xE3, CHR 0x83,
             CHR 0x99, CHR 0xE3, CHR 0x83, CHR 0xB3, CHR 0xE3, CHR 0x83, CHR 0x88])])]"
proof -
  have 1: "Start all_day_event = Some \<lparr>DateTime = '''', Date = ''2024-05-02''\<rparr>"
    and 2: "End all_day_event = Some \<lparr>DateTime = '''', Date = ''2024-05-03''\<rparr>"
    by (simp_all add: all_day_event_def)
  have 3: "DateTime \<lparr>DateTime = '''', Date = ''2024-05-02''\<rparr> = ''''"
    by simp
  have v: "event_times all_day_event
           = Value (\<lparr>unixSec = 1714608000, nsec = 0, loc = 0\<rparr>,
                    \<lparr>unixSec = 1714694400, nsec = 0, loc = 0\<rparr>, True)"
    by (rule event_times_all_day [OF 1 2]) (simp_all add: parse_example_times)
  have a: "After \<lparr>unixSec = 1714608000, nsec = 0, loc = 0\<rparr> example_tomorrowStart"
    "Before \<lparr>unixSec = 1714608000, nsec = 0, loc = 0\<rparr> example_tomorrowEnd"
    by (simp_all add: After_def Before_def example_tomorrowStart_def example_tomorrowEnd_def)
  have 4: "posts (fst (loop_body example_world ''https://discord.example/hook'' 32400
                         example_tomorrowStart example_tomorrowEnd 0 all_day_event)) \<noteq> []"
    using loop_body_Value [OF v] a by simp
  have 5: "Summary all_day_event = ''Holiday'' \<and> Location all_day_event = ''Office''"
    by (simp add: all_day_event_def)
  show ?thesis
    using all_day_message_text [OF 1 2 3 4] 5 by blast
qed

text \<open>
  C7. A timed event that is notified is posted with the mention, the title, the
  location, and the start and end in the layout \<open>2006-01-02 15:04\<close> at the offset of the
  loop's location: the date, a space, and hour and minute, with neither seconds nor
  offset. Where start and end are at 10:00 and 11:00 on that clock, the two texts are the
  dates followed by 10:00 and 11:00.
\<close>

theorem timed_message_text:
  assumes "Start event = Some start" and "End event = Some en" and "DateTime start \<noteq> ''''"
    and "posts (fst (loop_body w webhookURL location tomorrowStart tomorrowEnd k event)) \<noteq> []"
  shows "\<exists>startTime endTime.
           time_Parse RFC3339 (DateTime start) = Inr startTime
         \<and> time_Parse RFC3339 (DateTime en) = Inr endTime
         \<and> posts (fst (loop_body w webhookURL location tomorrowStart tomorrowEnd k event))
             = [(webhookURL, ''application/json'',
                 [(''content'',
                   ''@here'' @ nl @ ibento_mei @ '': '' @ Summary event @ nl @ basho @ '': ''
                   @ Location event @ nl
                   @ kaishi_jikan @ '': '' @ Format_minute (In startTime location) @ nl
                   @ shuuryou_jikan @ '': '' @ Format_minute (In endTime location))])]
         \<and> posts (fst (loop_body_part_000 w webhookURL location tomorrowStart tomorrowEnd k event))
             = posts (fst (loop_body w webhookURL location tomorrowStart tomorrowEnd k event))
         \<and> (Hour (In startTime location) = 10 \<and> Minute (In startTime location) = 0
            \<and> Hour (In endTime location) = 11 \<and> Minute (In endTime location) = 0 \<longrightarrow>
              Format_minute (In startTime location)
                = Format_date (In startTime location) @ '' 10:00''
            \<and> Format_minute (In endTime location)
                = Format_date (In endTime location) @ '' 11:00'')"
proof -
  from posts_loop_body_cases [OF assms(4)] obtain s e a where
    v: "event_times event = Value (s, e, a)"
    and p: "posts (fst (loop_body w webhookURL location tomorrowStart tomorrowEnd k event))
              = [(webhookURL, ''application/json'',
                  [(''content'', notification_message event (In s location) (In e location) a)])]"
    by blast
  have a: "\<not> a \<and> time_Parse RFC3339 (DateTime start) = Inr s
           \<and> time_Parse RFC3339 (DateTime en) = Inr e"
    using v assms(1,2,3) by (rule event_times_Value_timed)
  have 1: "posts (fst (loop_body w webhookURL location tomorrowStart tomorrowEnd k event))
             = [(webhookURL, ''application/json'',
                 [(''content'',
                   ''@here'' @ nl @ ibento_mei @ '': '' @ Summary event @ nl @ basho @ '': ''
                   @ Location event @ nl
                   @ kaishi_jikan @ '': '' @ Format_minute (In s location) @ nl
                   @ shuuryou_jikan @ '': '' @ Format_minute (In e location))])]"
    using p a by (simp only: notification_message_timed)
  have 2: "posts (fst (loop_body_part_000 w webhookURL location tomorrowStart tomorrowEnd k event))
           = posts (fst (loop_body w webhookURL location tomorrowStart tomorrowEnd k event))"
    using assms(1,2) by (rule posts_loop_body_part_000)
  have 3: "Hour (In s location) = 10 \<and> Minute (In s location) = 0
            \<and> Hour (In e location) = 11 \<and> Minute (In e location) = 0 \<longrightarrow>
              Format_minute (In s location) = Format_date (In s location) @ '' 10:00''
            \<and> Format_minute (In e location) = Format_date (In e location) @ '' 11:00''"
    by (simp add: Format_minute_def appendInt_clock)
  show ?thesis using a 1 2 3 by blast
qed

theorem timed_message_text_witness:
  "posts (fst (loop_body example_world ''https://discord.example/hook'' 32400
                 example_tomorrowStart example_tomorrowEnd 0 timed_event))
     = [(''https://discord.example/hook'', ''application/json'',
         [(''content'',
           ''@here'' @ [CHR 0x0A, CHR 0xE3, CHR 0x82, CHR 0xA4, CHR 0xE3, CHR 0x83, CHR 0x99,
             CHR 0xE3, CHR 0x83, CHR 0xB3, CHR 0xE3, CHR 0x83, CHR 0x88, CHR 0xE5, CHR 0x90,
             CHR 0x8D] @ '': Meet'' @ [CHR 0x0A, CHR 0xE5, CHR 0xA0, CHR 0xB4, CHR 0xE6, CHR 0x89,
             CHR 0x80] @ '': Room'' @ [CHR 0x0A, CHR 0xE9, CHR 0x96, CHR 0x8B, CHR 0xE5, CHR 0xA7,
             CHR 0x8B, CHR 0xE6, CHR 0x99, CHR 0x82, CHR 0xE9, CHR 0x96, CHR 0x93]
             @ '': 2024-05-02 10:00'' @ [CHR 0x0A, CHR 0xE7, CHR 0xB5, CHR 0x82, CHR 0xE4, CHR 0xBA,
             CHR 0x86, CHR 0xE6, CHR 0x99, CHR 0x82, CHR 0xE9, CHR 0x96, CHR 0x93]
             @ '': 2024-05-02 11:00'')])]"
proof -
  have 1: "Start timed_event = Some \<lparr>DateTime = ''2024-05-02T10:00:00+09:00'', Date = ''''\<rparr>"
    and 2: "End timed_event = Some \<lparr>DateTime = ''2024-05-02T11:00:00+09:00'', Date = ''''\<rparr>"
    by (simp_all add: timed_event_def)
  have 3: "DateTime \<lparr>DateTime = ''2024-05-02T10:00:00+09:00'', Date = ''''\<rparr> \<noteq> ''''"
    by simp
  have v: "event_times timed_event
           = Value (\<lparr>unixSec = 1714611600, nsec = 0, loc = 32400\<rparr>,
                    \<lparr>unixSec = 1714615200, nsec = 0, loc = 32400\<rparr>, False)"
    by (rule event_times_timed [OF 1 2]) (simp_all add: parse_example_times)
  have a: "After \<lparr>unixSec = 1714611600, nsec = 0, loc = 32400\<rparr> example_tomorrowStart"
    "Before \<lparr>unixSec = 1714611600, nsec = 0, loc = 32400\<rparr> example_tomorrowEnd"
    by (simp_all add: After_def Before_def example_tomorrowStart_def example_tomorrowEnd_def)
  have 4: "posts (fst (loop_body example_world ''https://discord.example/hook'' 32400
                         example_tomorrowStart example_tomorrowEnd 0 timed_event)) \<noteq> []"
    using loop_body_Value [OF v] a by simp
  have h: "Hour (In \<lparr>unixSec = 1714611600, nsec = 0, loc = 32400\<rparr> 32400) = 10"
    "Minute (In \<lparr>unixSec = 1714611600, nsec = 0, loc = 32400\<rparr> 32400) = 0"
    "Hour (In \<lparr>unixSec = 1714615200, nsec = 0, loc = 32400\<rparr> 32400) = 11"
    "Minute (In \<lparr>unixSec = 1714615200, nsec = 0, loc = 32400\<rparr> 32400) = 0"
    by code_simp+
  have d: "Format_date (In \<lparr>unixSec = 1714611600, nsec = 0, loc = 32400\<rparr> 32400) = ''2024-05-02''"
    "Format_date (In \<lparr>unixSec = 1714615200, nsec = 0, loc = 32400\<rparr> 32400) = ''2024-05-02''"
    by code_simp+
  have t: "Summary timed_event = ''Meet''" "Location timed_event = ''Room''"
    by (simp_all add: timed_event_def)
  from timed_message_text [OF 1 2 3 4] show ?thesis
    by (auto simp: parse_example_times h d t nl_def ibento_mei_def basho_def kaishi_jikan_def
        shuuryou_jikan_def)
qed

text \<open>
  C8. If the credential is absent (the empty string) or \<open>json.Unmarshal\<close> rejects it,
  \<open>getCalendarService\<close> returns an error and the run ends fatally on it, with nothing but
  that line on the log: no request has left the process. In \<open>src/main.go\<close> this is so
  once \<open>.env\<close> has loaded; if it has not, the run has ended before, fatally and without a
  request as well.
\<close>

theorem bad_credentials_fatal_before_network:
  assumes "Getenv w ''GOOGLE_CREDENTIALS'' = ''''
           \<or> json_Unmarshal w (Getenv w ''GOOGLE_CREDENTIALS'') \<noteq> None"
  shows "\<exists>err. getCalendarService w = Inl err
           \<and> main_part_000 w
               = ([Log (Printf ''Unable to retrieve Calendar client: %v'' [E err])], Fatal)
           \<and> (godotenv_Load w = None \<longrightarrow>
                main w = ([Log (Printf ''Unable to retrieve Calendar client: %v'' [E err])], Fatal))
           \<and> snd (main w) = Fatal \<and> network_calls (fst (main w)) = []
           \<and> network_calls (fst (main_part_000 w)) = []"
proof -
  have "\<exists>err. getCalendarService w = Inl err"
  proof (cases "Getenv w ''GOOGLE_CREDENTIALS'' = []")
    case True
    then show ?thesis by (simp add: getCalendarService_def)
  next
    case False
    with assms obtain e where "json_Unmarshal w (Getenv w ''GOOGLE_CREDENTIALS'') = Some e"
      by auto
    with False show ?thesis by (simp add: getCalendarService_def)
  qed
  then obtain err where e: "getCalendarService w = Inl err" ..
  show ?thesis
    using e by (auto simp: main_def main_part_000_def network_calls_def split: option.splits)
qed

theorem bad_credentials_fatal_before_network_witness:
  "json_Unmarshal bad_credentials_world (Getenv bad_credentials_world ''GOOGLE_CREDENTIALS'')
     \<noteq> None
   \<and> snd (main bad_credentials_world) = Fatal
   \<and> network_calls (fst (main bad_credentials_world)) = []
   \<and> snd (main_part_000 bad_credentials_world) = Fatal
   \<and> network_calls (fst (main_part_000 bad_credentials_world)) = []"
proof -
  have 1: "json_Unmarshal bad_credentials_world
             (Getenv bad_credentials_world ''GOOGLE_CREDENTIALS'') \<noteq> None"
    by (simp add: bad_credentials_world_def example_world_def)
  then have "Getenv bad_credentials_world ''GOOGLE_CREDENTIALS'' = ''''
             \<or> json_Unmarshal bad_credentials_world
                  (Getenv bad_credentials_world ''GOOGLE_CREDENTIALS'') \<noteq> None"
    by simp
  from bad_credentials_fatal_before_network [OF this] show ?thesis
    using 1 by auto
qed

text \<open>
  C10. Two events that differ in their end marker only, both ends present and parsing in
  the layout that the start selects, lead to a POST together or not at all.
\<close>

theorem end_marker_does_not_decide:
  assumes "End event = Some en" and "event' = event\<lparr>End := Some en'\<rparr>"
    and "\<forall>start. Start event = Some start \<longrightarrow>
           (if DateTime start \<noteq> ''''
            then (\<exists>t. time_Parse RFC3339 (DateTime en) = Inr t)
               \<and> (\<exists>t. time_Parse RFC3339 (DateTime en') = Inr t)
            else (\<exists>t. time_Parse Layout_2006_01_02 (Date en) = Inr t)
               \<and> (\<exists>t. time_Parse Layout_2006_01_02 (Date en') = Inr t))"
  shows "(posts (fst (loop_body w webhookURL location tomorrowStart tomorrowEnd k event)) = []
           \<longleftrightarrow> posts (fst (loop_body w webhookURL location tomorrowStart tomorrowEnd k event')) = [])
       \<and> (posts (fst (loop_body_part_000 w webhookURL location tomorrowStart tomorrowEnd k event))
            = []
           \<longleftrightarrow> posts (fst (loop_body_part_000 w webhookURL location tomorrowStart tomorrowEnd k
                            event')) = [])"
proof (cases "Start event")
  case None
  then show ?thesis
    using assms(1,2) by (simp add: loop_body_def loop_body_part_000_def event_times_def posts_simps)
next
  case (Some start)
  have s': "Start event' = Some start" and e': "End event' = Some en'"
    and sm: "Summary event' = Summary event"
    using Some assms(2) by simp_all
  have "(\<exists>line. event_times event = Continue line \<and> event_times event' = Continue line)
      \<or> (\<exists>s e e2 a. event_times event = Value (s, e, a) \<and> event_times event' = Value (s, e2, a))"
  proof (cases "DateTime start = []")
    case False
    with assms(3) Some obtain t t' where
      "time_Parse RFC3339 (DateTime en) = Inr t" "time_Parse RFC3339 (DateTime en') = Inr t'"
      by auto
    then show ?thesis
      using False Some assms(1) s' e' sm by (cases "time_Parse RFC3339 (DateTime start)")
        (auto simp: event_times_def)
  next
    case True
    with assms(3) Some obtain t t' where
      "time_Parse Layout_2006_01_02 (Date en) = Inr t"
      "time_Parse Layout_2006_01_02 (Date en') = Inr t'"
      by auto
    then show ?thesis
      using True Some assms(1) s' e' sm by (cases "time_Parse Layout_2006_01_02 (Date start)")
        (auto simp: event_times_def)
  qed
  then consider (skip) line where
      "event_times event = Continue line" "event_times event' = Continue line"
    | (val) s e e2 a where
      "event_times event = Value (s, e, a)" "event_times event' = Value (s, e2, a)"
    by blast
  then show ?thesis
  proof cases
    case skip
    then show ?thesis
      using loop_body_Continue [OF skip(1)] loop_body_Continue [OF skip(2)]
        loop_body_part_000_Continue [OF Some assms(1) skip(1)]
        loop_body_part_000_Continue [OF s' e' skip(2)]
      by (simp add: posts_simps)
  next
    case val
    then show ?thesis
      using loop_body_Value [OF val(1)] loop_body_Value [OF val(2)]
        loop_body_part_000_Value [OF Some assms(1) val(1)]
        loop_body_part_000_Value [OF s' e' val(2)]
      by simp
  qed
qed

theorem end_marker_does_not_decide_witness:
  "End timed_event = Some \<lparr>DateTime = ''2024-05-02T11:00:00+09:00'', Date = ''''\<rparr>
   \<and> posts (fst (loop_body example_world ''https://discord.example/hook'' 32400
                   example_tomorrowStart example_tomorrowEnd 0 timed_event)) \<noteq> []
   \<and> posts (fst (loop_body example_world ''https://discord.example/hook'' 32400
                   example_tomorrowStart example_tomorrowEnd 0
                   (timed_event\<lparr>End := Some \<lparr>DateTime = ''2024-05-02T12:30:00+09:00'',
                                               Date = ''''\<rparr>\<rparr>))) \<noteq> []"
proof -
  have 1: "Start timed_event = Some \<lparr>DateTime = ''2024-05-02T10:00:00+09:00'', Date = ''''\<rparr>"
    and 2: "End timed_event = Some \<lparr>DateTime = ''2024-05-02T11:00:00+09:00'', Date = ''''\<rparr>"
    by (simp_all add: timed_event_def)
  have 3: "\<forall>start. Start timed_event = Some start \<longrightarrow>
           (if DateTime start \<noteq> ''''
            then (\<exists>t. time_Parse RFC3339
                        (DateTime \<lparr>DateTime = ''2024-05-02T11:00:00+09:00'', Date = ''''\<rparr>) = Inr t)
               \<and> (\<exists>t. time_Parse RFC3339
                        (DateTime \<lparr>DateTime = ''2024-05-02T12:30:00+09:00'', Date = ''''\<rparr>) = Inr t)
            else (\<exists>t. time_Parse Layout_2006_01_02
                        (Date \<lparr>DateTime = ''2024-05-02T11:00:00+09:00'', Date = ''''\<rparr>) = Inr t)
               \<and> (\<exists>t. time_Parse Layout_2006_01_02
                        (Date \<lparr>DateTime = ''2024-05-02T12:30:00+09:00'', Date = ''''\<rparr>) = Inr t))"
    by (simp add: 1 parse_example_times)
  have v: "event_times timed_event
           = Value (\<lparr>unixSec = 1714611600, nsec = 0, loc = 32400\<rparr>,
                    \<lparr>unixSec = 1714615200, nsec = 0, loc = 32400\<rparr>, False)"
    by (rule event_times_timed [OF 1 2]) (simp_all add: parse_example_times)
  have a: "After \<lparr>unixSec = 1714611600, nsec = 0, loc = 32400\<rparr> example_tomorrowStart"
    "Before \<lparr>unixSec = 1714611600, nsec = 0, loc = 32400\<rparr> example_tomorrowEnd"
    by (simp_all add: After_def Before_def example_tomorrowStart_def example_tomorrowEnd_def)
  have 4: "posts (fst (loop_body example_world ''https://discord.example/hook'' 32400
                         example_tomorrowStart example_tomorrowEnd 0 timed_event)) \<noteq> []"
    using loop_body_Value [OF v] a by simp
  show ?thesis
    using end_marker_does_not_decide [OF 2 refl 3, of example_world
        "''https://discord.example/hook''" 32400 example_tomorrowStart example_tomorrowEnd 0] 2 4
    by simp
qed

end
